theory Spec2Isabelle
  imports Complex_Main "HOL-Library.Multiset"
begin

section \<open>JavaScript values used by the billing ledger\<close>

text \<open>
  The ledger of \<^verbatim>\<open>src/app.js\<close> keeps its amounts in JavaScript numbers. A number is
  modelled as an exact rational or the not-a-number value; binary rounding and the
  infinities are outside the model. A document field that holds an amount can also be
  absent (\<^verbatim>\<open>undefined\<close>) or \<^verbatim>\<open>null\<close>; string-valued amounts are outside the model (the
  forms convert their inputs with \<^verbatim>\<open>Number\<close> before they reach the functions below).
\<close>

datatype jsnum = Fin rat | NaN

datatype jsval = JsUndefined | JsNull | JsNumber jsnum

text \<open>\<^verbatim>\<open>Number(v)\<close>: \<^verbatim>\<open>undefined\<close> becomes NaN, \<^verbatim>\<open>null\<close> becomes 0.\<close>

fun Number :: "jsval \<Rightarrow> jsnum" where
  "Number JsUndefined = NaN"
| "Number JsNull = Fin 0"
| "Number (JsNumber n) = n"

text \<open>Truthiness: \<^verbatim>\<open>undefined\<close>, \<^verbatim>\<open>null\<close>, NaN and 0 are falsy.\<close>

fun truthy :: "jsval \<Rightarrow> bool" where
  "truthy JsUndefined = False"
| "truthy JsNull = False"
| "truthy (JsNumber NaN) = False"
| "truthy (JsNumber (Fin r)) = (r \<noteq> 0)"

text \<open>\<^verbatim>\<open>a || b\<close>\<close>

definition js_or :: "jsval \<Rightarrow> jsval \<Rightarrow> jsval" where
  "js_or a b = (if truthy a then a else b)"

text \<open>\<^verbatim>\<open>a + b\<close>, \<^verbatim>\<open>a - b\<close>, \<^verbatim>\<open>a * b\<close> on numbers: NaN is absorbing.\<close>

fun js_add :: "jsnum \<Rightarrow> jsnum \<Rightarrow> jsnum" where
  "js_add (Fin a) (Fin b) = Fin (a + b)"
| "js_add _ _ = NaN"

fun js_sub :: "jsnum \<Rightarrow> jsnum \<Rightarrow> jsnum" where
  "js_sub (Fin a) (Fin b) = Fin (a - b)"
| "js_sub _ _ = NaN"

fun js_mul :: "jsnum \<Rightarrow> jsnum \<Rightarrow> jsnum" where
  "js_mul (Fin a) (Fin b) = Fin (a * b)"
| "js_mul _ _ = NaN"

text \<open>\<^verbatim>\<open>a <= b\<close>: every comparison with NaN is false.\<close>

fun js_le :: "jsnum \<Rightarrow> jsnum \<Rightarrow> bool" where
  "js_le (Fin a) (Fin b) = (a \<le> b)"
| "js_le _ _ = False"

text \<open>
  \<^verbatim>\<open>Math.max(x, ...xs)\<close> with at least one argument: NaN as soon as one argument is NaN.
  The source guards both calls with \<^verbatim>\<open>length > 0\<close>, so \<^verbatim>\<open>Math.max()\<close> without arguments
  is never evaluated.
\<close>

fun js_max2 :: "jsnum \<Rightarrow> jsnum \<Rightarrow> jsnum" where
  "js_max2 (Fin a) (Fin b) = Fin (max a b)"
| "js_max2 _ _ = NaN"

definition Math_max :: "jsnum \<Rightarrow> jsnum list \<Rightarrow> jsnum" where
  "Math_max x xs = foldl js_max2 x xs"

section \<open>Data model\<close>

text \<open>
  The four status strings of \<^verbatim>\<open>StatusBadge\<close>, in English: pending, partially paid,
  paid, overdue.
\<close>

datatype status = Pending | PartiallyPaid | Paid | Overdue

record lineItem =
  serviceId :: string
  name :: string
  quantity :: jsval
  price :: jsval

text \<open>
  An invoice document (and the form data of \<^verbatim>\<open>InvoiceForm\<close>, which has the same shape).
  A numeric field that the object does not have is \<open>JsUndefined\<close>; a missing status is
  \<open>None\<close>.
\<close>

record invoice =
  invoiceNumber :: jsval
  customerId :: string
  customerName :: string
  date :: string
  items :: "lineItem list"
  total :: jsval
  paidAmount :: jsval
  remainingAmount :: jsval
  status :: "status option"

text \<open>
  The object that \<^verbatim>\<open>PaymentVoucherForm.handleSubmit\<close> passes to \<^verbatim>\<open>onSave\<close>:
  \<^verbatim>\<open>{...formData, amount: Number(formData.amount)}\<close>, so \<open>amount\<close> is a number. The
  source's fields \<^verbatim>\<open>customerId\<close>, \<^verbatim>\<open>customerName\<close>, \<^verbatim>\<open>invoiceNumber\<close> and \<^verbatim>\<open>date\<close> carry the
  prefix \<open>voucher\<close> here, the invoice record having fields of the same names.
\<close>

record voucherData =
  invoiceId :: string
  amount :: jsnum
  voucherCustomerId :: string
  voucherCustomerName :: string
  voucherInvoiceNumber :: jsval
  voucherDate :: string

record voucher = voucherData +
  voucherNumber :: jsnum
  createdAt :: nat

text \<open>The tenant's collections: document id to document.\<close>

record store =
  invoices :: "string \<rightharpoonup> invoice"
  vouchers :: "string \<rightharpoonup> voucher"

text \<open>
  The two failures: the string that the payment transaction throws (\<^verbatim>\<open>"Invoice does not
  exist!"\<close>) and the rejection of \<^verbatim>\<open>updateDoc\<close> for a document that is not there.
\<close>

datatype error = InvoiceDoesNotExist | DocumentNotFound

section \<open>Invoice form: total of the line items\<close>

text \<open>
  \<^verbatim>\<open>items.reduce((sum, item) => sum + (Number(item.quantity) * Number(item.price)), 0)\<close>
\<close>

definition calculateTotal :: "lineItem list \<Rightarrow> jsnum" where
  "calculateTotal its =
     foldl (\<lambda>sum item. js_add sum (js_mul (Number (quantity item)) (Number (price item))))
       (Fin 0) its"

text \<open>
  The effect of \<^verbatim>\<open>InvoiceForm\<close> that runs whenever the items change:
  \<^verbatim>\<open>setFormData(prev => ({ ...prev, total: calculateTotal(formData.items) }))\<close>.
\<close>

definition recalcTotal :: "invoice \<Rightarrow> invoice" where
  "recalcTotal formData = formData\<lparr>total := JsNumber (calculateTotal (items formData))\<rparr>"

section \<open>Invoices: saving an invoice\<close>

text \<open>
  \<^verbatim>\<open>invoices.length > 0 ? Math.max(...invoices.map(i => i.invoiceNumber)) + 1 : 1001\<close>
\<close>

definition newInvoiceNumber :: "invoice list \<Rightarrow> jsnum" where
  "newInvoiceNumber invs =
     (case map (\<lambda>i. Number (invoiceNumber i)) invs of
        [] \<Rightarrow> Fin 1001
      | n # ns \<Rightarrow> js_add (Math_max n ns) (Fin 1))"

text \<open>
  \<^verbatim>\<open>dataToSave\<close> of \<^verbatim>\<open>Invoices.handleSave\<close>: the form data with \<^verbatim>\<open>total\<close> and \<^verbatim>\<open>paidAmount\<close>
  converted and \<^verbatim>\<open>remainingAmount\<close> set from them.
\<close>

definition dataToSave :: "invoice \<Rightarrow> invoice" where
  "dataToSave invoiceData =
     (let d = invoiceData
            \<lparr>total := JsNumber (Number (total invoiceData)),
             paidAmount := js_or (JsNumber (Number (paidAmount invoiceData))) (JsNumber (Fin 0))\<rparr>
      in d\<lparr>remainingAmount := JsNumber (js_sub (Number (total d)) (Number (paidAmount d)))\<rparr>)"

text \<open>
  \<^verbatim>\<open>updateDoc(ref, data)\<close> writes the fields that \<^verbatim>\<open>data\<close> has and keeps the others. The
  form data always has its strings and its items; a numeric field or a status it does
  not have leaves the stored one as it is.
\<close>

definition keepIfAbsent :: "jsval \<Rightarrow> jsval \<Rightarrow> jsval" where
  "keepIfAbsent old new = (if new = JsUndefined then old else new)"

definition mergeInvoice :: "invoice \<Rightarrow> invoice \<Rightarrow> invoice" where
  "mergeInvoice old new =
     \<lparr>invoiceNumber = keepIfAbsent (invoiceNumber old) (invoiceNumber new),
      customerId = customerId new,
      customerName = customerName new,
      date = date new,
      items = items new,
      total = keepIfAbsent (total old) (total new),
      paidAmount = keepIfAbsent (paidAmount old) (paidAmount new),
      remainingAmount = keepIfAbsent (remainingAmount old) (remainingAmount new),
      status = (case status new of None \<Rightarrow> status old | Some s \<Rightarrow> Some s)\<rparr>"

text \<open>
  \<^verbatim>\<open>Invoices.handleSave\<close>. \<open>db\<close> is the store, \<open>invs\<close> the component's list of invoices (its
  last snapshot), \<open>currentInvoice\<close> the id of the invoice being edited if there is one,
  \<open>newId\<close> the id that \<^verbatim>\<open>addDoc\<close> generates. \<^verbatim>\<open>updateDoc\<close> rejects when the document is gone.
\<close>

definition Invoices_handleSave ::
  "store \<Rightarrow> invoice list \<Rightarrow> string option \<Rightarrow> string \<Rightarrow> invoice \<Rightarrow> error + store" where
  "Invoices_handleSave db invs currentInvoice newId invoiceData =
     (let d = dataToSave invoiceData in
      if currentInvoice \<noteq> None \<and> the currentInvoice \<noteq> []
      then (case invoices db (the currentInvoice) of
              None \<Rightarrow> Inl DocumentNotFound
            | Some old \<Rightarrow>
                Inr (db\<lparr>invoices := (invoices db)(the currentInvoice \<mapsto> mergeInvoice old d)\<rparr>))
      else Inr (db\<lparr>invoices := (invoices db)
                  (newId \<mapsto> d\<lparr>invoiceNumber := JsNumber (newInvoiceNumber invs),
                              status := Some Pending\<rparr>)\<rparr>))"

section \<open>Payment vouchers: recording a payment\<close>

text \<open>
  \<^verbatim>\<open>vouchers.length > 0 ? Math.max(...vouchers.map(v => v.voucherNumber)) + 1 : 1\<close>
\<close>

definition newVoucherNumber :: "voucher list \<Rightarrow> jsnum" where
  "newVoucherNumber vs =
     (case map voucherNumber vs of
        [] \<Rightarrow> Fin 1
      | n # ns \<Rightarrow> js_add (Math_max n ns) (Fin 1))"

text \<open>
  The new voucher document:
  \<^verbatim>\<open>{ ...voucherData, voucherNumber: newVoucherNumber, createdAt: serverTimestamp() }\<close>
\<close>

definition mkVoucher :: "voucherData \<Rightarrow> jsnum \<Rightarrow> nat \<Rightarrow> voucher" where
  "mkVoucher vd n now =
     \<lparr>invoiceId = invoiceId vd, amount = amount vd,
      voucherCustomerId = voucherCustomerId vd,
      voucherCustomerName = voucherCustomerName vd,
      voucherInvoiceNumber = voucherInvoiceNumber vd,
      voucherDate = voucherDate vd,
      voucherNumber = n, createdAt = now\<rparr>"

text \<open>The two writes that the transaction buffers until it commits.\<close>

datatype tx_write =
  TxUpdate string jsnum jsnum status
| TxSet string voucher

text \<open>
  The function passed to \<^verbatim>\<open>runTransaction\<close>. It reads the invoice, throws when the
  invoice does not exist, and otherwise buffers the update of the invoice and the new
  voucher. \<open>vs\<close> is the component's list of vouchers, \<open>newVoucherRef\<close> the generated id of
  the new voucher, \<open>now\<close> the server's timestamp.
\<close>

definition transactionBody ::
  "store \<Rightarrow> voucher list \<Rightarrow> string \<Rightarrow> nat \<Rightarrow> voucherData \<Rightarrow> error + tx_write list" where
  "transactionBody db vs newVoucherRef now vd =
     (case invoices db (invoiceId vd) of
        None \<Rightarrow> Inl InvoiceDoesNotExist
      | Some invoiceData \<Rightarrow>
          (let newPaidAmount =
                 js_add (Number (js_or (paidAmount invoiceData) (JsNumber (Fin 0)))) (amount vd);
               newRemainingAmount = js_sub (Number (total invoiceData)) newPaidAmount;
               newStatus = (if js_le newRemainingAmount (Fin 0) then Paid else PartiallyPaid);
               newVoucherNumber = newVoucherNumber vs
           in Inr [TxUpdate (invoiceId vd) newPaidAmount newRemainingAmount newStatus,
                   TxSet newVoucherRef (mkVoucher vd newVoucherNumber now)]))"

text \<open>Applying one buffered write; \<^verbatim>\<open>transaction.update\<close> changes three fields of the invoice.\<close>

fun applyWrite :: "store \<Rightarrow> tx_write \<Rightarrow> store" where
  "applyWrite db (TxUpdate k p r s) =
     (case invoices db k of
        None \<Rightarrow> db
      | Some d \<Rightarrow>
          db\<lparr>invoices := (invoices db)
               (k \<mapsto> d\<lparr>paidAmount := JsNumber p, remainingAmount := JsNumber r,
                         status := Some s\<rparr>)\<rparr>)"
| "applyWrite db (TxSet k v) = db\<lparr>vouchers := (vouchers db)(k \<mapsto> v)\<rparr>"

text \<open>
  \<^verbatim>\<open>runTransaction\<close>: when the function throws nothing is written; otherwise the buffered
  writes are committed together.
\<close>

definition runTransaction :: "store \<Rightarrow> (store \<Rightarrow> error + tx_write list) \<Rightarrow> error + store" where
  "runTransaction db body =
     (case body db of Inl e \<Rightarrow> Inl e | Inr ws \<Rightarrow> Inr (foldl applyWrite db ws))"

text \<open>
  \<^verbatim>\<open>PaymentVouchers.handleSave\<close>: the outcome of the transaction is caught. On success the
  modal closes; on failure the error is logged, the modal stays open and the store is as
  it was.
\<close>

record saveResult =
  db_after :: store
  isModalOpen :: bool
  logged :: "error option"

definition PaymentVouchers_handleSave ::
  "store \<Rightarrow> voucher list \<Rightarrow> string \<Rightarrow> nat \<Rightarrow> voucherData \<Rightarrow> saveResult" where
  "PaymentVouchers_handleSave db vs newVoucherRef now vd =
     (case runTransaction db (\<lambda>s. transactionBody s vs newVoucherRef now vd) of
        Inr db' \<Rightarrow> \<lparr>db_after = db', isModalOpen = False, logged = None\<rparr>
      | Inl e \<Rightarrow> \<lparr>db_after = db, isModalOpen = True, logged = Some e\<rparr>)"

section \<open>Dashboard: the rollup of the invoices\<close>

text \<open>
  The twelve Arabic month names of the table \<^verbatim>\<open>monthNames\<close>, transliterated, January first.
\<close>

datatype month =
  Yanayir | Fibrayir | Maris | Abril | Mayu | Yunyu | Yulyu | Aghustus | Sibtambir | Uktubar
| Nufambir | Disambir

definition monthNames :: "month list" where
  "monthNames =
     [Yanayir, Fibrayir, Maris, Abril, Mayu, Yunyu, Yulyu, Aghustus, Sibtambir, Uktubar,
      Nufambir, Disambir]"

text \<open>\<^verbatim>\<open>monthNames[monthIndex]\<close>, which is \<^verbatim>\<open>undefined\<close> outside the table.\<close>

definition monthNameAt :: "nat \<Rightarrow> month option" where
  "monthNameAt i = (if i < length monthNames then Some (monthNames ! i) else None)"

text \<open>
  The component's state: \<^verbatim>\<open>stats\<close> (the field \<^verbatim>\<open>invoices\<close> of the source is \<open>invoiceCount\<close> here),
  \<^verbatim>\<open>recentInvoices\<close> and \<^verbatim>\<open>salesData\<close>, whose entries \<^verbatim>\<open>{ name, sales }\<close> are pairs.
\<close>

record stats =
  sales :: jsnum
  profit :: jsnum
  customers :: nat
  invoiceCount :: nat

record dashboard =
  recentInvoices :: "invoice list"
  salesData :: "(month option \<times> jsnum) list"
  stats :: stats

text \<open>
  The body of \<^verbatim>\<open>allInvoices.forEach\<close>. The object \<^verbatim>\<open>monthlySales\<close> is the list of its entries in
  the order in which the keys were created, which is the order of \<^verbatim>\<open>Object.values\<close>.
  \<open>getMonth\<close> stands for \<^verbatim>\<open>new Date(inv.date).getMonth()\<close>, which depends on the time zone
  of the browser.
\<close>

definition addMonthSale ::
  "(string \<Rightarrow> nat) \<Rightarrow> (month option \<times> jsnum) list \<Rightarrow> invoice \<Rightarrow> (month option \<times> jsnum) list" where
  "addMonthSale getMonth monthlySales i =
     (let monthIndex = getMonth (date i);
          monthName = monthNameAt monthIndex;
          created = (if map_of monthlySales monthName = None
                     then monthlySales @ [(monthName, Fin 0)] else monthlySales)
      in map (\<lambda>(k, s). if k = monthName then (k, js_add s (Number (total i))) else (k, s))
           created)"

text \<open>
  \<^verbatim>\<open>allInvoices.sort((a, b) => new Date(b.date) - new Date(a.date))\<close>: a stable sort, latest
  date first, which sorts the array \<^verbatim>\<open>allInvoices\<close> itself. \<open>dateValue\<close> stands for the time
  value of \<^verbatim>\<open>new Date(inv.date)\<close>; dates that do not parse are outside the model.
\<close>

definition sortByDateDesc :: "(string \<Rightarrow> int) \<Rightarrow> invoice list \<Rightarrow> invoice list" where
  "sortByDateDesc dateValue allInvoices = sort_key (\<lambda>i. - dateValue (date i)) allInvoices"

text \<open>
  The listener on the invoices collection. The total is summed first; the sort for the
  recent invoices comes next, so the loop over the months runs over the sorted array.
\<close>

definition Dashboard_onInvoices ::
  "(string \<Rightarrow> int) \<Rightarrow> (string \<Rightarrow> nat) \<Rightarrow> stats \<Rightarrow> invoice list \<Rightarrow> dashboard" where
  "Dashboard_onInvoices dateValue getMonth prevStats allInvoices =
     (let totalSales = foldl (\<lambda>sum i. js_add sum (Number (total i))) (Fin 0) allInvoices;
          sorted = sortByDateDesc dateValue allInvoices;
          monthlySales = foldl (addMonthSale getMonth) [] sorted
      in \<lparr>recentInvoices = take 5 sorted,
          salesData = monthlySales,
          stats = prevStats\<lparr>sales := totalSales, profit := js_mul totalSales (Fin (1 / 4)),
                     invoiceCount := length sorted\<rparr>\<rparr>)"

section \<open>Notions used to state the properties\<close>

text \<open>
  The status that the specification derives from \<open>total\<close> and \<open>paidAmount\<close>, in its own
  words: paid if the remainder is at most 0, partially paid if something has been paid,
  pending otherwise. It is compared below with the status that the code stores.
\<close>

definition deriveStatus_spec :: "rat \<Rightarrow> rat \<Rightarrow> status" where
  "deriveStatus_spec t p =
     (if t - p \<le> 0 then Paid else if 0 < p then PartiallyPaid else Pending)"

text \<open>
  The invariant of an invoice at rest: \<open>total\<close> and \<open>paidAmount\<close> are numbers and
  \<open>remainingAmount\<close> is their difference.
\<close>

fun isNumeric :: "jsval \<Rightarrow> bool" where
  "isNumeric (JsNumber (Fin r)) = True"
| "isNumeric _ = False"

definition remainingConsistent :: "invoice \<Rightarrow> bool" where
  "remainingConsistent d =
     (isNumeric (total d) \<and> isNumeric (paidAmount d) \<and>
      remainingAmount d = JsNumber (js_sub (Number (total d)) (Number (paidAmount d))))"

text \<open>The sum of a list of numbers.\<close>

fun js_sum :: "jsnum list \<Rightarrow> jsnum" where
  "js_sum [] = Fin 0"
| "js_sum (x # xs) = js_add x (js_sum xs)"

text \<open>The distinct elements of a list, each at the place of its first occurrence.\<close>

definition firstSeen :: "'a list \<Rightarrow> 'a list" where
  "firstSeen ks = rev (remdups (rev ks))"

text \<open>The month bucket of an invoice, and the sum of the totals of a bucket.\<close>

definition monthOf :: "(string \<Rightarrow> nat) \<Rightarrow> invoice \<Rightarrow> month option" where
  "monthOf getMonth i = monthNameAt (getMonth (date i))"

definition monthTotal :: "(string \<Rightarrow> nat) \<Rightarrow> invoice list \<Rightarrow> month option \<Rightarrow> jsnum" where
  "monthTotal getMonth xs k =
     js_sum (map (\<lambda>i. Number (total i)) (filter (\<lambda>i. monthOf getMonth i = k) xs))"

section \<open>Example data\<close>

definition ex_invoice :: invoice where
  "ex_invoice =
     \<lparr>invoiceNumber = JsNumber (Fin 1001), customerId = ''c1'', customerName = ''Customer'',
      date = ''2024-03-15'',
      items = [\<lparr>serviceId = ''s1'', name = ''Design'', quantity = JsNumber (Fin 2),
                price = JsNumber (Fin 50)\<rparr>],
      total = JsNumber (Fin 100), paidAmount = JsNumber (Fin 40),
      remainingAmount = JsNumber (Fin 60), status = Some PartiallyPaid\<rparr>"

definition ex_db :: store where
  "ex_db = \<lparr>invoices = [''inv1'' \<mapsto> ex_invoice], vouchers = Map.empty\<rparr>"

definition ex_voucherData :: "string \<Rightarrow> jsnum \<Rightarrow> voucherData" where
  "ex_voucherData k a =
     \<lparr>invoiceId = k, amount = a, voucherCustomerId = ''c1'',
      voucherCustomerName = ''Customer'', voucherInvoiceNumber = JsNumber (Fin 1001),
      voucherDate = ''2024-04-01''\<rparr>"

definition ex_newForm :: invoice where
  "ex_newForm =
     \<lparr>invoiceNumber = JsUndefined, customerId = ''c1'', customerName = ''Customer'',
      date = ''2024-05-02'',
      items = [\<lparr>serviceId = [], name = [], quantity = JsNumber (Fin 1),
                price = JsNumber (Fin 0)\<rparr>],
      total = JsNumber (Fin 0), paidAmount = JsUndefined, remainingAmount = JsUndefined,
      status = None\<rparr>"

definition ex_paidInvoice :: invoice where
  "ex_paidInvoice =
     ex_invoice\<lparr>paidAmount := JsNumber (Fin 100), remainingAmount := JsNumber (Fin 0),
                status := Some Paid\<rparr>"

definition ex_editForm :: invoice where
  "ex_editForm =
     ex_paidInvoice
       \<lparr>items := [\<lparr>serviceId = ''s1'', name = ''Design'', quantity = JsNumber (Fin 4),
                    price = JsNumber (Fin 50)\<rparr>],
        total := JsNumber (Fin 200)\<rparr>"

definition ex_items :: "lineItem list" where
  "ex_items =
     [\<lparr>serviceId = ''s1'', name = ''Design'', quantity = JsNumber (Fin 2),
       price = JsNumber (Fin 150)\<rparr>,
      \<lparr>serviceId = ''s2'', name = ''Hosting'', quantity = JsNumber (Fin 1),
       price = JsNumber (Fin 300)\<rparr>]"

definition ex_january :: invoice where
  "ex_january = ex_invoice\<lparr>date := ''2024-01-10''\<rparr>"

definition ex_march :: invoice where
  "ex_march = ex_invoice\<lparr>date := ''2024-03-05'', total := JsNumber (Fin 200)\<rparr>"

definition ex_dateValue :: "string \<Rightarrow> int" where
  "ex_dateValue s =
     (if s = ''2024-01-10'' then 1704844800000
      else if s = ''2024-03-05'' then 1709596800000 else 0)"

definition ex_getMonth :: "string \<Rightarrow> nat" where
  "ex_getMonth s = (if s = ''2024-01-10'' then 0 else if s = ''2024-03-05'' then 2 else 0)"

definition ex_stats :: stats where
  "ex_stats = \<lparr>sales = Fin 0, profit = Fin 0, customers = 3, invoiceCount = 0\<rparr>"

section \<open>Facts about the value operations\<close>

lemma js_add_zero [simp]: "js_add (Fin 0) x = x"
  by (cases x) simp_all

lemma Number_or_zero:
  "Number (js_or v (JsNumber (Fin 0))) = (if truthy v then Number v else Fin 0)"
  by (simp add: js_or_def)

lemma Number_or_zero_Fin [simp]:
  "Number (js_or (JsNumber (Fin p)) (JsNumber (Fin 0))) = Fin p"
  by (simp add: js_or_def)

lemma Number_or_zero_finite: "\<exists>q. Number (js_or v (JsNumber (Fin 0))) = Fin q"
proof (cases "truthy v")
  case True
  then show ?thesis
    by (cases v rule: truthy.cases) (simp_all add: js_or_def)
next
  case False
  then show ?thesis by (simp add: js_or_def)
qed

lemma js_add_zero_right [simp]: "js_add x (Fin 0) = x"
  by (cases x) simp_all

lemma js_add_commute: "js_add a b = js_add b a"
  by (cases a; cases b) simp_all

lemma js_add_assoc: "js_add (js_add a b) c = js_add a (js_add b c)"
  by (cases a; cases b; cases c) simp_all

lemma js_add_left_commute: "js_add a (js_add b c) = js_add b (js_add a c)"
  by (cases a; cases b; cases c) simp_all

lemmas js_add_ac = js_add_assoc js_add_commute js_add_left_commute

lemma js_sum_snoc: "js_sum (xs @ [x]) = js_add (js_sum xs) x"
  by (induction xs) (simp_all add: js_add_assoc)

lemma js_sum_foldl: "foldl js_add a xs = js_add a (js_sum xs)"
  by (induction xs arbitrary: a) (simp_all add: js_add_assoc)

lemma js_sum_Fin: "js_sum (map Fin ts) = Fin (sum_list ts)"
  by (induction ts) simp_all

lemma js_sum_mset: "mset xs = mset ys \<Longrightarrow> js_sum xs = js_sum ys"
proof -
  assume m: "mset xs = mset ys"
  have f: "js_sum zs = fold js_add zs (Fin 0)" for zs
  proof -
    have "fold js_add zs a = js_add a (js_sum zs)" for a
      by (induction zs arbitrary: a) (simp_all add: js_add_ac)
    from this [of "Fin 0"] show ?thesis by simp
  qed
  have "fold js_add xs = fold js_add ys"
    by (rule fold_multiset_equiv [OF _ m])
       (simp add: fun_eq_iff js_add_left_commute)
  then show ?thesis by (simp add: f)
qed

section \<open>The payment transaction\<close>

lemma runTransaction_missing:
  "invoices db (invoiceId vd) = None \<Longrightarrow>
   runTransaction db (\<lambda>s. transactionBody s vs newVoucherRef now vd) = Inl InvoiceDoesNotExist"
  by (simp add: runTransaction_def transactionBody_def)

lemma runTransaction_existing:
  assumes "invoices db (invoiceId vd) = Some d"
  shows "runTransaction db (\<lambda>s. transactionBody s vs newVoucherRef now vd) =
    Inr (db\<lparr>invoices := (invoices db)(invoiceId vd \<mapsto>
               d\<lparr>paidAmount :=
                   JsNumber (js_add (Number (js_or (paidAmount d) (JsNumber (Fin 0)))) (amount vd)),
                 remainingAmount :=
                   JsNumber (js_sub (Number (total d))
                     (js_add (Number (js_or (paidAmount d) (JsNumber (Fin 0)))) (amount vd))),
                 status :=
                   Some (if js_le (js_sub (Number (total d))
                            (js_add (Number (js_or (paidAmount d) (JsNumber (Fin 0)))) (amount vd)))
                           (Fin 0)
                         then Paid else PartiallyPaid)\<rparr>),
             vouchers := (vouchers db)(newVoucherRef \<mapsto> mkVoucher vd (newVoucherNumber vs) now)\<rparr>)"
  using assms by (simp add: runTransaction_def transactionBody_def Let_def)








text \<open>
  Claim C6. When the invoice of the voucher does not exist, the transaction fails with
  the error thrown for the missing invoice and nothing is written: the store after
  \<^verbatim>\<open>handleSave\<close> is the store before it, with no voucher added and no invoice changed.
\<close>

theorem missing_invoice_aborts:
  assumes "invoices db (invoiceId vd) = None"
  shows "runTransaction db (\<lambda>s. transactionBody s vs newVoucherRef now vd) = Inl InvoiceDoesNotExist
       \<and> PaymentVouchers_handleSave db vs newVoucherRef now vd =
           \<lparr>db_after = db, isModalOpen = True, logged = Some InvoiceDoesNotExist\<rparr>"
  by (simp add: PaymentVouchers_handleSave_def runTransaction_missing [OF assms])

theorem missing_invoice_aborts_witness:
  "runTransaction ex_db (\<lambda>s. transactionBody s [] ''v1'' 7 (ex_voucherData ''gone'' (Fin 25)))
     = Inl InvoiceDoesNotExist
   \<and> PaymentVouchers_handleSave ex_db [] ''v1'' 7 (ex_voucherData ''gone'' (Fin 25)) =
       \<lparr>db_after = ex_db, isModalOpen = True, logged = Some InvoiceDoesNotExist\<rparr>"
  using missing_invoice_aborts [of ex_db "ex_voucherData ''gone'' (Fin 25)" "[]" "''v1''" 7]
  by (simp add: ex_db_def ex_voucherData_def)

text \<open>
  Claim C10. When the stored \<open>paidAmount\<close> of the invoice is absent, null, NaN or 0, the
  payment counts the amount paid so far as 0: the new paid amount is the voucher's amount
  and the new remaining amount is the total minus the voucher's amount.
\<close>

theorem falsy_paidAmount_counts_as_zero:
  assumes "invoices db (invoiceId vd) = Some d" and "\<not> truthy (paidAmount d)"
  shows "invoices (db_after (PaymentVouchers_handleSave db vs newVoucherRef now vd)) (invoiceId vd)
           = Some (d\<lparr>paidAmount := JsNumber (amount vd),
                     remainingAmount := JsNumber (js_sub (Number (total d)) (amount vd)),
                     status := Some (if js_le (js_sub (Number (total d)) (amount vd)) (Fin 0)
                                     then Paid else PartiallyPaid)\<rparr>)"
  using assms(2)
  by (simp add: PaymentVouchers_handleSave_def runTransaction_existing [OF assms(1)]
        Number_or_zero)

theorem falsy_paidAmount_counts_as_zero_witness:
  "invoices (db_after (PaymentVouchers_handleSave
        \<lparr>invoices = [''inv1'' \<mapsto> ex_invoice\<lparr>paidAmount := JsUndefined\<rparr>], vouchers = Map.empty\<rparr>
        [] ''v1'' 7 (ex_voucherData ''inv1'' (Fin 30)))) ''inv1''
     = Some (ex_invoice\<lparr>paidAmount := JsNumber (Fin 30), remainingAmount := JsNumber (Fin 70),
                status := Some PartiallyPaid\<rparr>)"
  using falsy_paidAmount_counts_as_zero
    [of "\<lparr>invoices = [''inv1'' \<mapsto> ex_invoice\<lparr>paidAmount := JsUndefined\<rparr>], vouchers = Map.empty\<rparr>"
        "ex_voucherData ''inv1'' (Fin 30)" "ex_invoice\<lparr>paidAmount := JsUndefined\<rparr>" "[]" "''v1''" 7]
  by (simp add: ex_voucherData_def ex_invoice_def)

section \<open>The remaining amount and the status of a saved invoice\<close>

lemma remainingConsistent_dataToSave:
  "total invoiceData = JsNumber (Fin t) \<Longrightarrow> remainingConsistent (dataToSave invoiceData)"
  apply (cases "paidAmount invoiceData" rule: truthy.cases)
  apply (simp_all add: remainingConsistent_def dataToSave_def Let_def js_or_def)
  done

lemma dataToSave_present:
  "total (dataToSave i) \<noteq> JsUndefined \<and> paidAmount (dataToSave i) \<noteq> JsUndefined \<and>
   remainingAmount (dataToSave i) \<noteq> JsUndefined"
  by (simp add: dataToSave_def Let_def js_or_def)

lemma remainingConsistent_merge:
  "remainingConsistent (dataToSave i) \<Longrightarrow> remainingConsistent (mergeInvoice old (dataToSave i))"
  using dataToSave_present [of i]
  by (simp add: remainingConsistent_def mergeInvoice_def keepIfAbsent_def)

text \<open>
  Claim C2. After the creation of an invoice, after the edit of an invoice and after the
  recording of a payment, the stored invoice has \<open>remainingAmount = total - paidAmount\<close>
  (for a numeric total and, for the payment, a numeric amount).
\<close>

theorem remaining_invariant_after_each_operation:
  assumes "total invoiceData = JsNumber (Fin t)"
    and "invoices db cid = Some old" and "cid \<noteq> []"
    and "invoices db (invoiceId vd) = Some d" and "total d = JsNumber (Fin t')"
    and "amount vd = Fin a"
  shows "(\<exists>db' i. Invoices_handleSave db invs None newId invoiceData = Inr db' \<and>
            invoices db' newId = Some i \<and> remainingConsistent i)
       \<and> (\<exists>db' i. Invoices_handleSave db invs (Some cid) newId invoiceData = Inr db' \<and>
            invoices db' cid = Some i \<and> remainingConsistent i)
       \<and> (\<exists>i. invoices (db_after (PaymentVouchers_handleSave db vs newVoucherRef now vd))
                 (invoiceId vd) = Some i \<and> remainingConsistent i)"
proof (intro conjI)
  have c: "remainingConsistent (dataToSave invoiceData)"
    using assms(1) by (rule remainingConsistent_dataToSave)
  then show "\<exists>db' i. Invoices_handleSave db invs None newId invoiceData = Inr db' \<and>
            invoices db' newId = Some i \<and> remainingConsistent i"
    by (simp add: Invoices_handleSave_def Let_def remainingConsistent_def)
  show "\<exists>db' i. Invoices_handleSave db invs (Some cid) newId invoiceData = Inr db' \<and>
            invoices db' cid = Some i \<and> remainingConsistent i"
    using assms(2,3) remainingConsistent_merge [OF c]
    by (simp add: Invoices_handleSave_def Let_def)
  obtain q where q: "Number (js_or (paidAmount d) (JsNumber (Fin 0))) = Fin q"
    using Number_or_zero_finite by blast
  show "\<exists>i. invoices (db_after (PaymentVouchers_handleSave db vs newVoucherRef now vd))
                 (invoiceId vd) = Some i \<and> remainingConsistent i"
    using assms(5,6) q
    by (simp add: PaymentVouchers_handleSave_def runTransaction_existing [OF assms(4)]
          remainingConsistent_def)
qed


theorem remaining_invariant_after_each_operation_witness:
  "(\<exists>db' i. Invoices_handleSave ex_db [ex_invoice] None ''inv2'' ex_newForm = Inr db' \<and>
            invoices db' ''inv2'' = Some i \<and> remainingConsistent i)
   \<and> (\<exists>db' i. Invoices_handleSave ex_db [ex_invoice] (Some ''inv1'') ''inv2'' ex_newForm = Inr db' \<and>
            invoices db' ''inv1'' = Some i \<and> remainingConsistent i)
   \<and> (\<exists>i. invoices (db_after (PaymentVouchers_handleSave ex_db [] ''v1'' 7
                 (ex_voucherData ''inv1'' (Fin 25)))) ''inv1'' = Some i \<and> remainingConsistent i)"
  using remaining_invariant_after_each_operation
    [of ex_newForm 0 ex_db "''inv1''" ex_invoice "ex_voucherData ''inv1'' (Fin 25)" ex_invoice 100 25
        "[ex_invoice]" "''inv2''" "[]" "''v1''" 7]
  by (simp add: ex_db_def ex_voucherData_def ex_invoice_def ex_newForm_def)





section \<open>Invoice and voucher numbers\<close>

lemma Math_max_Fin: "Math_max (Fin n) (map Fin ns) = Fin (Max (set (n # ns)))"
proof -
  have "foldl js_max2 (Fin n) (map Fin ns) = Fin (fold max ns n)"
    by (induction ns arbitrary: n) (simp_all add: max.commute)
  then show ?thesis
    by (simp only: Math_max_def Max.set_eq_fold)
qed



section \<open>The total of the line items\<close>

lemma calculateTotal_acc:
  "map quantity its = map (\<lambda>q. JsNumber (Fin q)) qs \<Longrightarrow>
   map price its = map (\<lambda>p. JsNumber (Fin p)) ps \<Longrightarrow>
   foldl (\<lambda>sum item. js_add sum (js_mul (Number (quantity item)) (Number (price item))))
     (Fin acc) its
   = Fin (acc + (\<Sum>(q, p)\<leftarrow>zip qs ps. q * p))"
proof (induction its arbitrary: acc qs ps)
  case Nil
  then show ?case by simp
next
  case (Cons i its)
  from Cons.prems obtain q qs' p ps' where
    qs: "qs = q # qs'" and ps: "ps = p # ps'"
    by (cases qs; cases ps) auto
  with Cons.prems have hd: "quantity i = JsNumber (Fin q)" "price i = JsNumber (Fin p)"
    and tl: "map quantity its = map (\<lambda>q. JsNumber (Fin q)) qs'"
            "map price its = map (\<lambda>p. JsNumber (Fin p)) ps'"
    by simp_all
  show ?case
    using Cons.IH [OF tl, of "acc + q * p"] hd
    by (simp add: qs ps add.assoc)
qed




section \<open>The dashboard rollup\<close>

lemma firstSeen_snoc:
  "firstSeen (ks @ [k]) = (if k \<in> set ks then firstSeen ks else firstSeen ks @ [k])"
  by (simp add: firstSeen_def)

lemma set_firstSeen [simp]: "set (firstSeen ks) = set ks"
  by (simp add: firstSeen_def)

lemma distinct_firstSeen: "distinct (firstSeen ks)"
  by (simp add: firstSeen_def)

lemma map_of_tabulate: "map_of (map (\<lambda>k. (k, g k)) ks) m = (if m \<in> set ks then Some (g m) else None)"
  by (induction ks) auto

lemma monthTotal_snoc:
  "monthTotal getMonth (xs @ [x]) k =
     (if monthOf getMonth x = k then js_add (monthTotal getMonth xs k) (Number (total x))
      else monthTotal getMonth xs k)"
  by (simp add: monthTotal_def js_sum_snoc)

lemma monthTotal_unseen:
  "k \<notin> set (map (monthOf getMonth) xs) \<Longrightarrow> monthTotal getMonth xs k = Fin 0"
proof -
  assume "k \<notin> set (map (monthOf getMonth) xs)"
  then have "filter (\<lambda>i. monthOf getMonth i = k) xs = []"
    by (auto simp add: filter_empty_conv)
  then show ?thesis by (simp add: monthTotal_def)
qed

lemma monthlySales_fold:
  "foldl (addMonthSale getMonth) [] xs =
     map (\<lambda>k. (k, monthTotal getMonth xs k)) (firstSeen (map (monthOf getMonth) xs))"
proof (induction xs rule: rev_induct)
  case Nil
  then show ?case by (simp add: firstSeen_def)
next
  case (snoc x xs)
  let ?m = "monthOf getMonth x"
  let ?L = "firstSeen (map (monthOf getMonth) xs)"
  have step: "foldl (addMonthSale getMonth) [] (xs @ [x]) =
      addMonthSale getMonth (map (\<lambda>k. (k, monthTotal getMonth xs k)) ?L) x"
    by (simp add: snoc.IH)
  show ?case
  proof (cases "?m \<in> set (map (monthOf getMonth) xs)")
    case True
    then have "?m \<in> set ?L" by simp
    then have "addMonthSale getMonth (map (\<lambda>k. (k, monthTotal getMonth xs k)) ?L) x =
       map (\<lambda>k. (k, monthTotal getMonth (xs @ [x]) k)) ?L"
      by (simp add: addMonthSale_def Let_def map_of_tabulate monthOf_def [symmetric]
            monthTotal_snoc comp_def)
    with True show ?thesis
      by (simp only: step map_append list.map firstSeen_snoc if_True)
  next
    case False
    then have notin: "?m \<notin> set ?L" by simp
    have "addMonthSale getMonth (map (\<lambda>k. (k, monthTotal getMonth xs k)) ?L) x =
       map (\<lambda>k. (k, monthTotal getMonth (xs @ [x]) k)) (?L @ [?m])"
      using notin monthTotal_unseen [OF False]
      by (auto simp add: addMonthSale_def Let_def map_of_tabulate monthOf_def [symmetric]
            monthTotal_snoc comp_def)
    with False show ?thesis
      by (simp only: step map_append list.map firstSeen_snoc if_False)
  qed
qed


lemma monthTotal_sorted:
  "monthTotal getMonth (sortByDateDesc dateValue xs) k = monthTotal getMonth xs k"
  unfolding monthTotal_def sortByDateDesc_def
  by (rule js_sum_mset) simp

lemma totalSales_Fin:
  assumes "map total xs = map (\<lambda>t. JsNumber (Fin t)) ts"
  shows "foldl (\<lambda>sum i. js_add sum (Number (total i))) (Fin 0) xs = Fin (sum_list ts)"
proof -
  have "foldl (\<lambda>sum i. js_add sum (Number (total i))) a xs
        = foldl js_add a (map (\<lambda>i. Number (total i)) xs)" for a
    by (induction xs arbitrary: a) simp_all
  moreover have "map (\<lambda>i. Number (total i)) xs = map Number (map total xs)"
    by simp
  moreover have "map Number (map (\<lambda>t. JsNumber (Fin t)) ts) = map Fin ts"
    by simp
  ultimately show ?thesis
    by (simp only: assms js_sum_foldl js_sum_Fin js_add_zero)
qed





end
